theory Spec2Isabelle
  imports Complex_Main
begin

section \<open>On-screen controllers: joystick, d-pad, slider and button\<close>

text \<open>
  A shallow embedding of the event handlers of \<^verbatim>\<open>src/joystick/Joystick.ts\<close>,
  \<^verbatim>\<open>src/joystick/Dpad.ts\<close> (which also holds the slider and a copy of the
  button) and \<^verbatim>\<open>src/joystick/Button.ts\<close>.

  Conventions of the model:
  \<^item> a JavaScript \<^verbatim>\<open>number\<close> is a \<^typ>\<open>real\<close>, the value that the double
    denotes: there is no NaN, no infinity and no signed zero. Comparisons,
    \<^verbatim>\<open>Math.min\<close>, \<^verbatim>\<open>Math.max\<close>, \<^verbatim>\<open>Math.round\<close> and the unary minus are exact
    on doubles and are the operations of the reals;
  \<^item> the joystick and the slider are modelled with the exact arithmetic that the
    doubles approximate, and a theorem about the value of a quotient states that
    the divisor is positive. The d-pad classifies by exact comparisons at the
    borders of its sectors, where a rounding error decides the result; its
    handlers therefore take the arithmetic (sum, difference, product, quotient,
    cosine, sine, \<^verbatim>\<open>atan2\<close>, square root and \<^verbatim>\<open>Math.PI\<close>) as a parameter,
    and what is proved of them holds for every arithmetic;
  \<^item> a controller is a record of the fields its handlers read or write; the
    styling of the DOM elements (opacity, transform, fill colour) and the
    verbose log are left out, they are never read back;
  \<^item> a handler takes the controller and the event and returns the controller
    after the handler together with the list of callbacks it invoked, in order;
  \<^item> what a handler measures from the layout (\<^verbatim>\<open>getBoundingClientRect()\<close>,
    \<^verbatim>\<open>offsetWidth\<close>) is a parameter of the handler;
  \<^item> the constructors always install a callback (the caller's or a logging
    default), so the \<^verbatim>\<open>?.call\<close> and \<^verbatim>\<open>if (this.onPressCallback)\<close>
    tests always succeed and are not modelled.
\<close>

subsection \<open>The platform: rectangles, pointer events and \<^verbatim>\<open>Math\<close>\<close>

record DOMRect =
  left_rect :: real
  top_rect :: real
  width_rect :: real
  height_rect :: real

record PointerEvent =
  pointerId :: int
  clientX :: real
  clientY :: real

text \<open>\<^verbatim>\<open>Math.hypot(x, y)\<close>; the d-pad writes \<^verbatim>\<open>Math.sqrt(x * x + y * y)\<close>.\<close>

definition Math_hypot :: "real \<Rightarrow> real \<Rightarrow> real" where
  "Math_hypot x y = sqrt (x * x + y * y)"

text \<open>\<^verbatim>\<open>Math.round\<close> rounds to the nearest integer, a half towards plus infinity.\<close>

definition Math_round :: "real \<Rightarrow> real" where
  "Math_round x = of_int \<lfloor>x + 1 / 2\<rfloor>"

text \<open>
  \<^verbatim>\<open>Math.atan2(y, x)\<close>: the angle of the point \<open>(x, y)\<close>, in \<open>(-\<pi>, \<pi>]\<close>.
  (On doubles \<^verbatim>\<open>Math.atan2(-0, x)\<close> is \<open>-\<pi>\<close> for negative \<open>x\<close>, where this
  definition gives \<open>\<pi>\<close>; the d-pad maps both to the same sector.)
\<close>

definition Math_atan2 :: "real \<Rightarrow> real \<Rightarrow> real" where
  "Math_atan2 y x =
     (if 0 < x then arctan (y / x)
      else if x < 0 then (if 0 \<le> y then arctan (y / x) + pi else arctan (y / x) - pi)
      else if 0 < y then pi / 2
      else if y < 0 then - (pi / 2)
      else 0)"

text \<open>
  The arithmetic of the platform, as the d-pad's handlers use it. A double is
  the real it denotes, so that the rounded operations of IEEE 754 are one
  arithmetic among others, and the exact operations are another.
\<close>

record arithmetic =
  plus_num :: "real \<Rightarrow> real \<Rightarrow> real"
  minus_num :: "real \<Rightarrow> real \<Rightarrow> real"
  times_num :: "real \<Rightarrow> real \<Rightarrow> real"
  divide_num :: "real \<Rightarrow> real \<Rightarrow> real"
  cos_num :: "real \<Rightarrow> real"
  sin_num :: "real \<Rightarrow> real"
  atan2_num :: "real \<Rightarrow> real \<Rightarrow> real"
  sqrt_num :: "real \<Rightarrow> real"
  pi_num :: real

definition exact_arithmetic :: arithmetic where
  "exact_arithmetic =
     \<lparr>plus_num = (+), minus_num = (-), times_num = (*), divide_num = (/),
      cos_num = cos, sin_num = sin, atan2_num = Math_atan2, sqrt_num = sqrt, pi_num = pi\<rparr>"

text \<open>
  The inverse rotation that the joystick writes out (lines 358-364): the point
  is turned by \<open>-rotation\<close> degrees.
\<close>

definition rotateBack :: "real \<Rightarrow> real \<times> real \<Rightarrow> real \<times> real" where
  "rotateBack rotation p =
     (let x = fst p; y = snd p;
          angle = (- rotation * pi) / 180;
          rotatedX = x * cos angle - y * sin angle;
          rotatedY = x * sin angle + y * cos angle
      in (rotatedX, rotatedY))"

subsection \<open>JoystickController (Joystick.ts)\<close>

text \<open>
  \<open>baseRect_joy\<close> has the type \<^verbatim>\<open>DOMRect | undefined\<close> in the source; the
  constructor's \<^verbatim>\<open>init()\<close> assigns it before any handler can run and nothing
  clears it, so the record holds a rectangle.
\<close>

record JoystickController =
  rotation_joy :: real
  radius_joy :: real
  isPressed_joy :: bool
  baseRect_joy :: DOMRect
  thumbMaxDistance :: real

datatype joystick_callback = JoyInput real real | JoyRelease real real

text \<open>What \<^verbatim>\<open>updateContainerRectangle\<close> reads from the page.\<close>

record joystick_layout =
  boundingClientRect :: DOMRect
  thumbOffsetWidth :: real

definition updateContainerRectangle_joy ::
    "joystick_layout \<Rightarrow> JoystickController \<Rightarrow> JoystickController" where
  "updateContainerRectangle_joy lay s =
     s\<lparr>baseRect_joy := boundingClientRect lay,
       thumbMaxDistance := (radius_joy s - thumbOffsetWidth lay) / 1.5\<rparr>"

text \<open>
  The constructor: \<^verbatim>\<open>options.radius || 5\<close>, \<^verbatim>\<open>options.rotation || 0\<close>, not
  pressed, then \<^verbatim>\<open>init()\<close> measures once. The rectangle given to the record
  before the measurement is never read.
\<close>

definition JoystickController_new ::
    "real option \<Rightarrow> real option \<Rightarrow> joystick_layout \<Rightarrow> JoystickController" where
  "JoystickController_new radius rotation lay =
     updateContainerRectangle_joy lay
       \<lparr>rotation_joy = (case rotation of None \<Rightarrow> 0 | Some t \<Rightarrow> t),
        radius_joy = (case radius of None \<Rightarrow> 5 | Some r \<Rightarrow> if r = 0 then 5 else r),
        isPressed_joy = False,
        baseRect_joy = boundingClientRect lay,
        thumbMaxDistance = 0\<rparr>"

text \<open>Lines 348-355: the offset is pulled back onto the disc of radius \<open>R\<close>.\<close>

definition clampOffset :: "real \<Rightarrow> real \<times> real \<Rightarrow> real \<times> real" where
  "clampOffset R p =
     (let x = fst p; y = snd p; distance = Math_hypot x y
      in if distance > R then (x * (R / distance), y * (R / distance)) else (x, y))"

text \<open>Lines 340-346: the pointer position relative to the centre of the base.\<close>

definition joystickOffset :: "DOMRect \<Rightarrow> PointerEvent \<Rightarrow> real \<times> real" where
  "joystickOffset r e =
     (let baseCenterX = left_rect r + width_rect r / 2;
          baseCenterY = top_rect r + height_rect r / 2
      in (clientX e - baseCenterX, clientY e - baseCenterY))"

text \<open>Lines 369-372: normalised to \<open>[-1, 1]\<close>, two decimals, the vertical axis flipped.\<close>

definition normalizeOffset :: "real \<Rightarrow> real \<times> real \<Rightarrow> real \<times> real" where
  "normalizeOffset R p =
     (Math_round ((fst p / R) * 100) / 100, Math_round ((- snd p / R) * 100) / 100)"

definition onJoysickMove ::
    "JoystickController \<Rightarrow> PointerEvent \<Rightarrow> JoystickController \<times> joystick_callback list" where
  "onJoysickMove s e =
     (if \<not> isPressed_joy s then (s, [])
      else
        let p = joystickOffset (baseRect_joy s) e;
            p = clampOffset (thumbMaxDistance s) p;
            p = (if rotation_joy s \<noteq> 0 then rotateBack (rotation_joy s) p else p);
            v = normalizeOffset (thumbMaxDistance s) p
        in (s, [JoyInput (fst v) (snd v)]))"

definition onJoysickDown ::
    "joystick_layout \<Rightarrow> JoystickController \<Rightarrow> PointerEvent \<Rightarrow>
     JoystickController \<times> joystick_callback list" where
  "onJoysickDown lay s e =
     onJoysickMove (updateContainerRectangle_joy lay (s\<lparr>isPressed_joy := True\<rparr>)) e"

text \<open>Bound to both \<^verbatim>\<open>pointerup\<close> and \<^verbatim>\<open>pointercancel\<close>.\<close>

definition onJoysickUp ::
    "JoystickController \<Rightarrow> PointerEvent \<Rightarrow> JoystickController \<times> joystick_callback list" where
  "onJoysickUp s e = (s\<lparr>isPressed_joy := False\<rparr>, [JoyRelease 0 0])"

subsection \<open>DpadController (Dpad.ts)\<close>

datatype direction =
  Center | Up | Down | Left | Right | UpRight | DownRight | UpLeft | DownLeft

text \<open>
  \<open>baseRect_dpad\<close> is \<^verbatim>\<open>undefined\<close> until the first pointer-down: the d-pad's
  constructor does not measure. Reading a field of \<^verbatim>\<open>undefined\<close> throws.
\<close>

datatype error = TypeError

record DpadController =
  centerThreshold :: real
  rotation_dpad :: real
  currentDirection :: direction
  pointerId_dpad :: int
  baseRect_dpad :: "DOMRect option"
  inputRegisterDistance :: real
  isPressed_dpad :: bool

datatype dpad_callback = DpadPress direction | DpadRelease direction

text \<open>The constructor: the threshold defaults to a quarter, nothing is measured.\<close>

definition DpadController_new :: "real option \<Rightarrow> real option \<Rightarrow> DpadController" where
  "DpadController_new centerRadiusThreshold rotation =
     \<lparr>centerThreshold = (case centerRadiusThreshold of None \<Rightarrow> 0.25 | Some t \<Rightarrow> t),
      rotation_dpad = (case rotation of None \<Rightarrow> 0 | Some t \<Rightarrow> t),
      currentDirection = Center,
      pointerId_dpad = -1,
      baseRect_dpad = None,
      inputRegisterDistance = 0,
      isPressed_dpad = False\<rparr>"

definition updateContainerRectangle_dpad ::
    "arithmetic \<Rightarrow> DOMRect \<Rightarrow> DpadController \<Rightarrow> DpadController" where
  "updateContainerRectangle_dpad M measured s =
     s\<lparr>baseRect_dpad := Some measured,
       inputRegisterDistance :=
         times_num M (divide_num M (min (width_rect measured) (height_rect measured)) 2)
           (centerThreshold s)\<rparr>"

text \<open>Lines 438-455: the offset from the centre, turned back when the d-pad is rotated.\<close>

definition dpadOffset ::
    "arithmetic \<Rightarrow> DpadController \<Rightarrow> DOMRect \<Rightarrow> PointerEvent \<Rightarrow> real \<times> real" where
  "dpadOffset M s r e =
     (let baseCenterX = plus_num M (left_rect r) (divide_num M (width_rect r) 2);
          baseCenterY = plus_num M (top_rect r) (divide_num M (height_rect r) 2);
          x = minus_num M (clientX e) baseCenterX;
          y = minus_num M (clientY e) baseCenterY
      in if rotation_dpad s \<noteq> 0 then
           (let angle = divide_num M (times_num M (- rotation_dpad s) (pi_num M)) 180;
                x1 = minus_num M (times_num M x (cos_num M angle)) (times_num M y (sin_num M angle));
                y1 = plus_num M (times_num M x (sin_num M angle)) (times_num M y (cos_num M angle))
            in (x1, y1))
         else (x, y))"

text \<open>Lines 473-484: the sector of the angle, or the centre inside the dead zone.\<close>

definition dpadSector :: "real \<Rightarrow> real \<Rightarrow> real \<Rightarrow> direction" where
  "dpadSector angle centerDistance registerDistance =
     (if centerDistance > registerDistance then
        (if angle > -22.5 \<and> angle \<le> 22.5 then Right
         else if angle > 22.5 \<and> angle \<le> 67.5 then UpRight
         else if angle > 67.5 \<and> angle \<le> 112.5 then Up
         else if angle > 112.5 \<and> angle \<le> 157.5 then UpLeft
         else if angle > 157.5 \<or> angle \<le> -157.5 then Left
         else if angle > -157.5 \<and> angle \<le> -112.5 then DownLeft
         else if angle > -112.5 \<and> angle \<le> -67.5 then Down
         else if angle > -67.5 \<and> angle \<le> -22.5 then DownRight
         else Center)
      else Center)"

text \<open>Lines 438-484 together: the direction that a move event maps to.\<close>

definition dpadDirection ::
    "arithmetic \<Rightarrow> DpadController \<Rightarrow> DOMRect \<Rightarrow> PointerEvent \<Rightarrow> direction" where
  "dpadDirection M s r e =
     (let p = dpadOffset M s r e; x = fst p; y = snd p;
          angle = divide_num M (times_num M (atan2_num M (- y) x) 180) (pi_num M);
          centerDistance = sqrt_num M (plus_num M (times_num M x x) (times_num M y y))
      in dpadSector angle centerDistance (inputRegisterDistance s))"

definition onDpadMove ::
    "arithmetic \<Rightarrow> DpadController \<Rightarrow> PointerEvent \<Rightarrow>
     error + DpadController \<times> dpad_callback list" where
  "onDpadMove M s e =
     (if \<not> isPressed_dpad s then Inr (s, [])
      else case baseRect_dpad s of
        None \<Rightarrow> Inl TypeError
      | Some r \<Rightarrow>
          let direction = dpadDirection M s r e
          in if currentDirection s \<noteq> direction
             then Inr (s\<lparr>currentDirection := direction\<rparr>, [DpadPress direction])
             else Inr (s, []))"

text \<open>
  A touch of a \<^verbatim>\<open>TouchEvent\<close> carries an \<^verbatim>\<open>identifier\<close> and the client
  coordinates; the handler casts the first touch to a pointer event, of which the
  move handler reads the coordinates only.
\<close>

record Touch =
  identifier_touch :: int
  touchClientX :: real
  touchClientY :: real

datatype dpad_down_event = PointerDown PointerEvent | TouchStart "Touch list"

definition touchAsPointer :: "Touch \<Rightarrow> PointerEvent" where
  "touchAsPointer t =
     \<lparr>pointerId = identifier_touch t, clientX = touchClientX t, clientY = touchClientY t\<rparr>"

fun onDpadDown ::
    "arithmetic \<Rightarrow> DOMRect \<Rightarrow> DpadController \<Rightarrow> dpad_down_event \<Rightarrow>
     error + DpadController \<times> dpad_callback list" where
  "onDpadDown M measured s (PointerDown e) =
     onDpadMove M
       (updateContainerRectangle_dpad M measured
          (s\<lparr>isPressed_dpad := True, pointerId_dpad := pointerId e\<rparr>)) e"
| "onDpadDown M measured s (TouchStart (t # ts)) =
     onDpadMove M
       (updateContainerRectangle_dpad M measured
          (s\<lparr>isPressed_dpad := True, pointerId_dpad := identifier_touch t\<rparr>)) (touchAsPointer t)"
| "onDpadDown M measured s (TouchStart []) = Inr (s, [])"

text \<open>The event of \<^verbatim>\<open>onDpadUp\<close> is not read.\<close>

definition onDpadUp :: "DpadController \<Rightarrow> DpadController \<times> dpad_callback list" where
  "onDpadUp s =
     (s\<lparr>isPressed_dpad := False, pointerId_dpad := -1, currentDirection := Center\<rparr>,
      [DpadRelease Center])"

text \<open>
  The page delivers the events one after the other; a run of move events threads
  the controller through \<open>onDpadMove\<close> and collects the callbacks. An exception
  ends the run.
\<close>

fun dpadMoves ::
    "arithmetic \<Rightarrow> DpadController \<Rightarrow> PointerEvent list \<Rightarrow>
     error + DpadController \<times> dpad_callback list" where
  "dpadMoves M s [] = Inr (s, [])"
| "dpadMoves M s (e # es) =
     (case onDpadMove M s e of
        Inl err \<Rightarrow> Inl err
      | Inr (s', cbs) \<Rightarrow>
          (case dpadMoves M s' es of
             Inl err \<Rightarrow> Inl err
           | Inr (s'', cbs') \<Rightarrow> Inr (s'', cbs @ cbs')))"

subsection \<open>RetrackableSlider (Dpad.ts, second part)\<close>

datatype slider_direction = Vertical | Horizontal

record RetrackableSlider =
  direction_slider :: slider_direction
  baseRect_slider :: "DOMRect option"
  isPressed_slider :: bool
  valuePercent :: real

datatype slider_callback = SliderSlide real | SliderRelease

definition RetrackableSlider_new :: "slider_direction option \<Rightarrow> RetrackableSlider" where
  "RetrackableSlider_new dir =
     \<lparr>direction_slider = (case dir of None \<Rightarrow> Vertical | Some d \<Rightarrow> d),
      baseRect_slider = None,
      isPressed_slider = False,
      valuePercent = 0\<rparr>"

text \<open>Lines 909-919: the position along the axis as a percentage, clamped and rounded.\<close>

definition sliderValue :: "slider_direction \<Rightarrow> DOMRect \<Rightarrow> PointerEvent \<Rightarrow> real" where
  "sliderValue dir r e =
     (let value =
            (if dir = Vertical
             then 100 - ((clientY e - top_rect r) / height_rect r) * 100
             else ((clientX e - left_rect r) / width_rect r) * 100)
      in Math_round (max 0 (min 100 value)))"

text \<open>
  \<open>setSliderValue\<close> measures the rectangle afresh on every call and reads it
  back at once.
\<close>

definition setSliderValue ::
    "DOMRect \<Rightarrow> RetrackableSlider \<Rightarrow> PointerEvent \<Rightarrow>
     RetrackableSlider \<times> slider_callback list" where
  "setSliderValue measured s0 e =
     (let s = s0\<lparr>baseRect_slider := Some measured\<rparr>;
          value = sliderValue (direction_slider s) measured e
      in if valuePercent s \<noteq> value
         then (s\<lparr>valuePercent := value\<rparr>, [SliderSlide value])
         else (s, []))"

definition onSliderUp :: "RetrackableSlider \<Rightarrow> RetrackableSlider \<times> slider_callback list" where
  "onSliderUp s0 =
     (let s = s0\<lparr>isPressed_slider := False\<rparr>
      in if valuePercent s \<noteq> 0
         then (s\<lparr>valuePercent := 0\<rparr>, [SliderRelease])
         else (s, []))"

definition onSliderDown ::
    "DOMRect \<Rightarrow> RetrackableSlider \<Rightarrow> PointerEvent \<Rightarrow>
     RetrackableSlider \<times> slider_callback list" where
  "onSliderDown measured s e = setSliderValue measured (s\<lparr>isPressed_slider := True\<rparr>) e"

definition onSliderMove ::
    "DOMRect \<Rightarrow> RetrackableSlider \<Rightarrow> PointerEvent \<Rightarrow>
     RetrackableSlider \<times> slider_callback list" where
  "onSliderMove measured s e =
     (if \<not> isPressed_slider s then (s, []) else setSliderValue measured s e)"

subsection \<open>ButtonController (Button.ts, and its copy in Dpad.ts)\<close>

record ButtonController =
  isPressed_btn :: bool

datatype button_callback = ButtonPress | ButtonRelease


definition onButtonUp :: "ButtonController \<Rightarrow> ButtonController \<times> button_callback list" where
  "onButtonUp s =
     (if \<not> isPressed_btn s then (s, [])
      else (s\<lparr>isPressed_btn := False\<rparr>, [ButtonRelease]))"


subsection \<open>Example configurations\<close>

text \<open>A d-pad of 100 by 100 pixels at the origin, pressed at its centre by pointer 1.\<close>

abbreviation example_rect :: DOMRect where
  "example_rect \<equiv> \<lparr>left_rect = 0, top_rect = 0, width_rect = 100, height_rect = 100\<rparr>"

abbreviation dpad_tracking :: DpadController where
  "dpad_tracking \<equiv>
     \<lparr>centerThreshold = 0.25, rotation_dpad = 0, currentDirection = Center,
      pointerId_dpad = 1, baseRect_dpad = Some example_rect,
      inputRegisterDistance = 12.5, isPressed_dpad = True\<rparr>"

text \<open>
  A joystick of radius 125 whose thumb is 50 wide, so that the thumb travels 50;
  its base is at the origin and it is pressed. A vertical slider on the d-pad's
  rectangle, pressed at mid-height.
\<close>

abbreviation joystick_example_layout :: joystick_layout where
  "joystick_example_layout \<equiv>
     \<lparr>boundingClientRect = \<lparr>left_rect = 0, top_rect = 0, width_rect = 125, height_rect = 125\<rparr>,
      thumbOffsetWidth = 50\<rparr>"

abbreviation joystick_tracking :: JoystickController where
  "joystick_tracking \<equiv>
     \<lparr>rotation_joy = 0, radius_joy = 125, isPressed_joy = True,
      baseRect_joy = \<lparr>left_rect = 0, top_rect = 0, width_rect = 125, height_rect = 125\<rparr>,
      thumbMaxDistance = 50\<rparr>"

abbreviation slider_tracking :: RetrackableSlider where
  "slider_tracking \<equiv>
     \<lparr>direction_slider = Vertical, baseRect_slider = Some example_rect,
      isPressed_slider = True, valuePercent = 50\<rparr>"

section \<open>Properties\<close>

subsection \<open>Auxiliary facts\<close>

lemma Math_round_numeral: "Math_round (numeral k) = numeral k" "Math_round 0 = 0" "Math_round 1 = 1"
  unfolding Math_round_def by simp_all


lemma onDpadMove_pressed:
  assumes "isPressed_dpad s" and "baseRect_dpad s = Some r"
  shows "onDpadMove M s e =
           Inr (s\<lparr>currentDirection := dpadDirection M s r e\<rparr>,
                if currentDirection s = dpadDirection M s r e then []
                else [DpadPress (dpadDirection M s r e)])"
  using assms by (simp add: onDpadMove_def Let_def)

lemma dpadDirection_currentDirection:
  "dpadDirection M (s\<lparr>currentDirection := d\<rparr>) r e = dpadDirection M s r e"
  by (simp add: dpadDirection_def dpadOffset_def Let_def)

lemma dpadDirection_pointerId:
  "dpadDirection M s r (e\<lparr>pointerId := i\<rparr>) = dpadDirection M s r e"
  by (simp add: dpadDirection_def dpadOffset_def Let_def)

lemma dpad_example_center:
  "dpadDirection exact_arithmetic dpad_tracking example_rect
     \<lparr>pointerId = i, clientX = 50, clientY = 50\<rparr> = Center"
  by (simp add: dpadDirection_def dpadOffset_def dpadSector_def exact_arithmetic_def Let_def)

lemma dpad_example_right:
  assumes "25 / 2 < x"
  shows "dpadDirection exact_arithmetic (dpad_tracking\<lparr>currentDirection := c\<rparr>) example_rect
           \<lparr>pointerId = i, clientX = 50 + x, clientY = 50\<rparr> = Right"
proof -
  have "sqrt (x * x) = x" using assms by simp
  moreover have "Math_atan2 0 x = 0" using assms by (simp add: Math_atan2_def)
  ultimately show ?thesis using assms
    by (simp add: dpadDirection_def dpadOffset_def dpadSector_def exact_arithmetic_def Let_def)
qed

lemma dpadMoves_same_direction:
  assumes "isPressed_dpad s" and "baseRect_dpad s = Some r"
    and "\<forall>e \<in> set es. dpadDirection M s r e = currentDirection s"
  shows "dpadMoves M s es = Inr (s, [])"
  using assms
proof (induction es)
  case Nil
  then show ?case by simp
next
  case (Cons e es)
  then have "onDpadMove M s e = Inr (s, [])"
    by (simp add: onDpadMove_pressed)
  moreover have "dpadMoves M s es = Inr (s, [])"
    using Cons by simp
  ultimately show ?case by simp
qed


lemma joystick_example_right:
  "onJoysickMove joystick_tracking \<lparr>pointerId = i, clientX = 112.5, clientY = 62.5\<rparr>
     = (joystick_tracking, [JoyInput 1 0])"
  by (simp add: onJoysickMove_def joystickOffset_def clampOffset_def normalizeOffset_def
      Math_hypot_def Math_round_numeral Let_def)

lemma slider_example_value:
  "sliderValue Vertical example_rect \<lparr>pointerId = i, clientX = 5, clientY = 50\<rparr> = 50"
  by (simp add: sliderValue_def Math_round_numeral)

lemma slider_example_down:
  "onSliderDown example_rect (RetrackableSlider_new None) \<lparr>pointerId = 1, clientX = 5, clientY = 50\<rparr>
     = (slider_tracking, [SliderSlide 50])"
  by (simp add: onSliderDown_def setSliderValue_def RetrackableSlider_new_def slider_example_value Let_def)









lemma sqrt_sum_ge_fst: "\<bar>x\<bar> \<le> sqrt (x * x + y * y)"
  using real_sqrt_sum_squares_ge1 [of "\<bar>x\<bar>" y] by (simp add: power2_eq_square)

lemma sqrt_sum_ge_snd: "\<bar>y\<bar> \<le> sqrt (x * x + y * y)"
  using real_sqrt_sum_squares_ge2 [of "\<bar>y\<bar>" x] by (simp add: power2_eq_square)

lemma arctan_fifth_bounds: "0 < arctan (1 / 5 :: real)" "arctan (1 / 5 :: real) < pi / 8"
proof -
  show "0 < arctan (1 / 5 :: real)" by simp
  have "2 * arctan (1 / 5 :: real) = arctan ((2 * (1 / 5)) / (1 - (1 / 5)\<^sup>2))"
    by (rule arctan_double) simp
  also have "\<dots> < arctan 1"
    by (rule arctan_monotone) (simp add: power2_eq_square)
  finally show "arctan (1 / 5 :: real) < pi / 8"
    by (simp add: arctan_one)
qed

subsection \<open>The claims\<close>

text \<open>
  C1, as stated, fails on a d-pad that tracks pointer 1 (pressed at the centre of
  its rectangle): a move event of pointer 2 to the right of the centre changes
  \<open>currentDirection\<close> to \<open>Right\<close> and invokes the press callback.
\<close>

theorem dpad_foreign_move_counterexample:
  "onDpadDown exact_arithmetic example_rect (DpadController_new None None)
       (PointerDown \<lparr>pointerId = 1, clientX = 50, clientY = 50\<rparr>) = Inr (dpad_tracking, [])
   \<and> isPressed_dpad dpad_tracking \<and> pointerId_dpad dpad_tracking = 1
   \<and> onDpadMove exact_arithmetic dpad_tracking \<lparr>pointerId = 2, clientX = 100, clientY = 50\<rparr>
       = Inr (dpad_tracking\<lparr>currentDirection := Right\<rparr>, [DpadPress Right])"
proof -
  have u: "updateContainerRectangle_dpad exact_arithmetic example_rect
             ((DpadController_new None None)\<lparr>isPressed_dpad := True, pointerId_dpad := 1\<rparr>)
           = dpad_tracking"
    by (simp add: DpadController_new_def updateContainerRectangle_dpad_def exact_arithmetic_def)
  have d: "onDpadDown exact_arithmetic example_rect (DpadController_new None None)
       (PointerDown \<lparr>pointerId = 1, clientX = 50, clientY = 50\<rparr>) = Inr (dpad_tracking, [])"
    using dpad_example_center [of 1] by (simp add: u onDpadMove_pressed)
  have "dpadDirection exact_arithmetic dpad_tracking example_rect \<lparr>pointerId = 2, clientX = 100, clientY = 50\<rparr> = Right"
    using dpad_example_right [of 50 Center 2] by simp
  then have m: "onDpadMove exact_arithmetic dpad_tracking \<lparr>pointerId = 2, clientX = 100, clientY = 50\<rparr>
       = Inr (dpad_tracking\<lparr>currentDirection := Right\<rparr>, [DpadPress Right])"
    by (simp add: onDpadMove_pressed)
  show ?thesis using d m by simp
qed

text \<open>
  C1 (amended). The d-pad's move handler does not compare the event's pointer
  identifier with the stored one. While the d-pad is pressed, a move event of any
  pointer is handled exactly as the same move of the stored pointer:
  \<open>currentDirection\<close> becomes the direction that the event's coordinates map
  to, the press callback is invoked exactly when that direction differs from the
  previous one, and the stored \<open>pointerId\<close> is left as it was.
\<close>

theorem dpad_move_not_filtered:
  assumes "isPressed_dpad s" and "baseRect_dpad s = Some r"
  shows "onDpadMove M s e = onDpadMove M s (e\<lparr>pointerId := pointerId_dpad s\<rparr>)
         \<and> onDpadMove M s e =
             Inr (s\<lparr>currentDirection := dpadDirection M s r e\<rparr>,
                  if currentDirection s = dpadDirection M s r e then []
                  else [DpadPress (dpadDirection M s r e)])
         \<and> pointerId_dpad (s\<lparr>currentDirection := dpadDirection M s r e\<rparr>) = pointerId_dpad s"
  using assms by (simp add: onDpadMove_pressed dpadDirection_pointerId)

theorem dpad_move_not_filtered_witness:
  "onDpadMove exact_arithmetic dpad_tracking \<lparr>pointerId = 2, clientX = 100, clientY = 50\<rparr>
     = onDpadMove exact_arithmetic dpad_tracking \<lparr>pointerId = 1, clientX = 100, clientY = 50\<rparr>
   \<and> onDpadMove exact_arithmetic dpad_tracking \<lparr>pointerId = 2, clientX = 100, clientY = 50\<rparr>
     = Inr (dpad_tracking\<lparr>currentDirection := Right\<rparr>, [DpadPress Right])"
proof -
  have r: "dpadDirection exact_arithmetic dpad_tracking example_rect \<lparr>pointerId = 2, clientX = 100, clientY = 50\<rparr> = Right"
    using dpad_example_right [of 50 Center 2] by simp
  have p: "isPressed_dpad dpad_tracking" and b: "baseRect_dpad dpad_tracking = Some example_rect"
    by simp_all
  note t = dpad_move_not_filtered
             [OF p b, where e = "\<lparr>pointerId = 2, clientX = 100, clientY = 50\<rparr>"]
  have "onDpadMove exact_arithmetic dpad_tracking \<lparr>pointerId = 2, clientX = 100, clientY = 50\<rparr>
     = onDpadMove exact_arithmetic dpad_tracking \<lparr>pointerId = 1, clientX = 100, clientY = 50\<rparr>"
    using t [THEN conjunct1] by simp
  moreover have "onDpadMove exact_arithmetic dpad_tracking \<lparr>pointerId = 2, clientX = 100, clientY = 50\<rparr>
     = Inr (dpad_tracking\<lparr>currentDirection := Right\<rparr>, [DpadPress Right])"
    using t [THEN conjunct2, THEN conjunct1] r by simp
  ultimately show ?thesis by (rule conjI)
qed

text \<open>
  C2 (amended). Every release of the slider leaves \<open>isPressed\<close> false and
  \<open>valuePercent\<close> 0; the release callback is invoked exactly when
  \<open>valuePercent\<close> was not 0 before the release (lines 849-857).
\<close>

theorem slider_release_gated:
  "onSliderUp s =
     (s\<lparr>isPressed_slider := False, valuePercent := 0\<rparr>,
      if valuePercent s \<noteq> 0 then [SliderRelease] else [])"
  by (cases s) (simp add: onSliderUp_def Let_def)

text \<open>
  C2, as stated, fails on a slider that is released straight after its
  construction: the value is 0 and no callback is invoked.
\<close>

theorem slider_release_counterexample:
  "valuePercent (RetrackableSlider_new None) = 0
   \<and> snd (onSliderUp (RetrackableSlider_new None)) = []"
  by (simp add: onSliderUp_def RetrackableSlider_new_def Let_def)




text \<open>
  C4. The sector table of the d-pad, for every arithmetic. For a move event on
  a pressed d-pad let \<open>(x0, y0)\<close> be the offset of the event from the centre of
  the rectangle and \<open>(dx, dy)\<close> that offset turned by \<open>-rotation\<close> degrees when
  the rotation is not 0, that is
  \<open>(x0 cos t - y0 sin t, x0 sin t + y0 cos t)\<close> with \<open>t = -rotation \<pi> / 180\<close>; let
  \<open>angle\<close> be \<open>atan2(-dy, dx)\<close> in degrees and \<open>centerDistance\<close> the square root
  of \<open>dx dx + dy dy\<close>, all as the arithmetic computes them. The handler
  returns, and the direction \<open>D\<close> that it leaves in \<open>currentDirection\<close> is
  \<open>Center\<close> when \<open>centerDistance \<le> registerDistance\<close> and otherwise the
  sector of the angle, the upper bound of each sector included and the lower
  one excluded; every angle above 157.5 or at most -157.5 is \<open>Left\<close>, so the
  sectors leave no angle out. In particular 22.5 is \<open>Right\<close> and 22.6 is
  \<open>UpRight\<close>, and a distance equal to the register distance is \<open>Center\<close>.
\<close>

theorem dpad_sector_table:
  assumes "isPressed_dpad s" and "baseRect_dpad s = Some r"
    and "x0 = minus_num M (clientX e) (plus_num M (left_rect r) (divide_num M (width_rect r) 2))"
    and "y0 = minus_num M (clientY e) (plus_num M (top_rect r) (divide_num M (height_rect r) 2))"
    and "t = divide_num M (times_num M (- rotation_dpad s) (pi_num M)) 180"
    and "dx = (if rotation_dpad s \<noteq> 0
               then minus_num M (times_num M x0 (cos_num M t)) (times_num M y0 (sin_num M t))
               else x0)"
    and "dy = (if rotation_dpad s \<noteq> 0
               then plus_num M (times_num M x0 (sin_num M t)) (times_num M y0 (cos_num M t))
               else y0)"
    and "angle = divide_num M (times_num M (atan2_num M (- dy) dx) 180) (pi_num M)"
    and "centerDistance = sqrt_num M (plus_num M (times_num M dx dx) (times_num M dy dy))"
    and "registerDistance = inputRegisterDistance s"
  shows "(\<exists>D. onDpadMove M s e =
                  Inr (s\<lparr>currentDirection := D\<rparr>,
                       if currentDirection s = D then [] else [DpadPress D])
           \<and> (centerDistance \<le> registerDistance \<longrightarrow> D = Center)
           \<and> (registerDistance < centerDistance \<longrightarrow>
                (angle \<in> {-22.5 <.. 22.5} \<longrightarrow> D = Right)
                \<and> (angle \<in> {22.5 <.. 67.5} \<longrightarrow> D = UpRight)
                \<and> (angle \<in> {67.5 <.. 112.5} \<longrightarrow> D = Up)
                \<and> (angle \<in> {112.5 <.. 157.5} \<longrightarrow> D = UpLeft)
                \<and> (angle \<in> {157.5 <.. 180} \<union> {-180 <.. -157.5} \<longrightarrow> D = Left)
                \<and> (angle \<in> {-157.5 <.. -112.5} \<longrightarrow> D = DownLeft)
                \<and> (angle \<in> {-112.5 <.. -67.5} \<longrightarrow> D = Down)
                \<and> (angle \<in> {-67.5 <.. -22.5} \<longrightarrow> D = DownRight)
                \<and> (157.5 < angle \<or> angle \<le> -157.5 \<longrightarrow> D = Left)))
         \<and> (registerDistance < c \<longrightarrow>
               dpadSector 22.5 c registerDistance = Right
               \<and> dpadSector 22.6 c registerDistance = UpRight)
         \<and> dpadSector a registerDistance registerDistance = Center"
proof -
  let ?D = "dpadDirection M s r e"
  have off: "dpadOffset M s r e = (dx, dy)"
    unfolding dpadOffset_def Let_def assms(3) [symmetric] assms(4) [symmetric]
      assms(5) [symmetric]
    using assms(6,7) by simp
  have D: "?D = dpadSector angle centerDistance registerDistance"
    unfolding dpadDirection_def Let_def off using assms(8,9,10) by simp
  have mv: "onDpadMove M s e = Inr (s\<lparr>currentDirection := ?D\<rparr>,
              if currentDirection s = ?D then [] else [DpadPress ?D])"
    using assms(1,2) by (rule onDpadMove_pressed)
  have inside: "centerDistance \<le> registerDistance \<longrightarrow> ?D = Center"
    by (simp add: D dpadSector_def)
  have outside: "registerDistance < centerDistance \<longrightarrow>
                (angle \<in> {-22.5 <.. 22.5} \<longrightarrow> ?D = Right)
                \<and> (angle \<in> {22.5 <.. 67.5} \<longrightarrow> ?D = UpRight)
                \<and> (angle \<in> {67.5 <.. 112.5} \<longrightarrow> ?D = Up)
                \<and> (angle \<in> {112.5 <.. 157.5} \<longrightarrow> ?D = UpLeft)
                \<and> (angle \<in> {157.5 <.. 180} \<union> {-180 <.. -157.5} \<longrightarrow> ?D = Left)
                \<and> (angle \<in> {-157.5 <.. -112.5} \<longrightarrow> ?D = DownLeft)
                \<and> (angle \<in> {-112.5 <.. -67.5} \<longrightarrow> ?D = Down)
                \<and> (angle \<in> {-67.5 <.. -22.5} \<longrightarrow> ?D = DownRight)
                \<and> (157.5 < angle \<or> angle \<le> -157.5 \<longrightarrow> ?D = Left)"
    unfolding D dpadSector_def by auto
  have boundary: "registerDistance < c \<longrightarrow>
               dpadSector 22.5 c registerDistance = Right
               \<and> dpadSector 22.6 c registerDistance = UpRight"
    by (simp add: dpadSector_def)
  have dead: "dpadSector a registerDistance registerDistance = Center"
    by (simp add: dpadSector_def)
  from mv inside outside have "\<exists>D. onDpadMove M s e =
                  Inr (s\<lparr>currentDirection := D\<rparr>,
                       if currentDirection s = D then [] else [DpadPress D])
           \<and> (centerDistance \<le> registerDistance \<longrightarrow> D = Center)
           \<and> (registerDistance < centerDistance \<longrightarrow>
                (angle \<in> {-22.5 <.. 22.5} \<longrightarrow> D = Right)
                \<and> (angle \<in> {22.5 <.. 67.5} \<longrightarrow> D = UpRight)
                \<and> (angle \<in> {67.5 <.. 112.5} \<longrightarrow> D = Up)
                \<and> (angle \<in> {112.5 <.. 157.5} \<longrightarrow> D = UpLeft)
                \<and> (angle \<in> {157.5 <.. 180} \<union> {-180 <.. -157.5} \<longrightarrow> D = Left)
                \<and> (angle \<in> {-157.5 <.. -112.5} \<longrightarrow> D = DownLeft)
                \<and> (angle \<in> {-112.5 <.. -67.5} \<longrightarrow> D = Down)
                \<and> (angle \<in> {-67.5 <.. -22.5} \<longrightarrow> D = DownRight)
                \<and> (157.5 < angle \<or> angle \<le> -157.5 \<longrightarrow> D = Left))"
    by blast
  with boundary dead show ?thesis by blast
qed

text \<open>
  The table at work in the exact arithmetic: one event for each of the nine
  directions on the d-pad without rotation (the last one exactly on the border
  of the dead zone), and the event 50 pixels to the right of the centre on the
  d-pad turned by 90 degrees, where it is \<open>Up\<close>, and by -90 degrees, where it
  is \<open>Down\<close>.
\<close>

theorem dpad_sector_table_witness:
  "onDpadMove exact_arithmetic dpad_tracking \<lparr>pointerId = 1, clientX = 100, clientY = 50\<rparr>
       = Inr (dpad_tracking\<lparr>currentDirection := Right\<rparr>, [DpadPress Right])
   \<and> onDpadMove exact_arithmetic dpad_tracking \<lparr>pointerId = 1, clientX = 100, clientY = 0\<rparr>
       = Inr (dpad_tracking\<lparr>currentDirection := UpRight\<rparr>, [DpadPress UpRight])
   \<and> onDpadMove exact_arithmetic dpad_tracking \<lparr>pointerId = 1, clientX = 50, clientY = 0\<rparr>
       = Inr (dpad_tracking\<lparr>currentDirection := Up\<rparr>, [DpadPress Up])
   \<and> onDpadMove exact_arithmetic dpad_tracking \<lparr>pointerId = 1, clientX = 0, clientY = 0\<rparr>
       = Inr (dpad_tracking\<lparr>currentDirection := UpLeft\<rparr>, [DpadPress UpLeft])
   \<and> onDpadMove exact_arithmetic dpad_tracking \<lparr>pointerId = 1, clientX = 0, clientY = 40\<rparr>
       = Inr (dpad_tracking\<lparr>currentDirection := Left\<rparr>, [DpadPress Left])
   \<and> onDpadMove exact_arithmetic dpad_tracking \<lparr>pointerId = 1, clientX = 0, clientY = 100\<rparr>
       = Inr (dpad_tracking\<lparr>currentDirection := DownLeft\<rparr>, [DpadPress DownLeft])
   \<and> onDpadMove exact_arithmetic dpad_tracking \<lparr>pointerId = 1, clientX = 50, clientY = 100\<rparr>
       = Inr (dpad_tracking\<lparr>currentDirection := Down\<rparr>, [DpadPress Down])
   \<and> onDpadMove exact_arithmetic dpad_tracking \<lparr>pointerId = 1, clientX = 100, clientY = 100\<rparr>
       = Inr (dpad_tracking\<lparr>currentDirection := DownRight\<rparr>, [DpadPress DownRight])
   \<and> onDpadMove exact_arithmetic (dpad_tracking\<lparr>rotation_dpad := 90\<rparr>) \<lparr>pointerId = 1, clientX = 100, clientY = 50\<rparr>
       = Inr ((dpad_tracking\<lparr>rotation_dpad := 90\<rparr>)\<lparr>currentDirection := Up\<rparr>, [DpadPress Up])
   \<and> onDpadMove exact_arithmetic (dpad_tracking\<lparr>rotation_dpad := - 90\<rparr>) \<lparr>pointerId = 1, clientX = 100, clientY = 50\<rparr>
       = Inr ((dpad_tracking\<lparr>rotation_dpad := - 90\<rparr>)\<lparr>currentDirection := Down\<rparr>, [DpadPress Down])
   \<and> onDpadMove exact_arithmetic dpad_tracking \<lparr>pointerId = 1, clientX = 62.5, clientY = 50\<rparr>
       = Inr (dpad_tracking, [])"
proof -
  have p0: "isPressed_dpad dpad_tracking" and b0: "baseRect_dpad dpad_tracking = Some example_rect"
    by simp_all
  have d0: "onDpadMove exact_arithmetic dpad_tracking \<lparr>pointerId = 1, clientX = 100, clientY = 50\<rparr>
       = Inr (dpad_tracking\<lparr>currentDirection := Right\<rparr>, [DpadPress Right])"
  proof -
    have hx: "50 = minus_num exact_arithmetic (clientX \<lparr>pointerId = 1, clientX = 100, clientY = 50\<rparr>)
                (plus_num exact_arithmetic (left_rect example_rect) (divide_num exact_arithmetic (width_rect example_rect) 2))"
      by (simp add: exact_arithmetic_def)
    have hy: "0 = minus_num exact_arithmetic (clientY \<lparr>pointerId = 1, clientX = 100, clientY = 50\<rparr>)
                (plus_num exact_arithmetic (top_rect example_rect) (divide_num exact_arithmetic (height_rect example_rect) 2))"
      by (simp add: exact_arithmetic_def)
    have ht: "0 = divide_num exact_arithmetic (times_num exact_arithmetic (- rotation_dpad dpad_tracking) (pi_num exact_arithmetic)) 180"
      by (simp add: exact_arithmetic_def)
    have hdx: "50 = (if rotation_dpad dpad_tracking \<noteq> 0
                 then minus_num exact_arithmetic (times_num exact_arithmetic (50) (cos_num exact_arithmetic (0)))
                        (times_num exact_arithmetic (0) (sin_num exact_arithmetic (0)))
                 else 50)"
      by (simp add: exact_arithmetic_def)
    have hdy: "0 = (if rotation_dpad dpad_tracking \<noteq> 0
                 then plus_num exact_arithmetic (times_num exact_arithmetic (50) (sin_num exact_arithmetic (0)))
                        (times_num exact_arithmetic (0) (cos_num exact_arithmetic (0)))
                 else 0)"
      by (simp add: exact_arithmetic_def)
    have c: "25 / 2 < sqrt_num exact_arithmetic (plus_num exact_arithmetic (times_num exact_arithmetic (50) (50)) (times_num exact_arithmetic (0) (0)))"
      using sqrt_sum_ge_fst [of "50" "0"] sqrt_sum_ge_snd [of "0" "50"]
      by (simp add: exact_arithmetic_def)
    have hang: "0 = divide_num exact_arithmetic (times_num exact_arithmetic (atan2_num exact_arithmetic (- (0)) (50)) 180) (pi_num exact_arithmetic)"
      by (simp add: exact_arithmetic_def Math_atan2_def arctan_one arctan_minus)
    from dpad_sector_table [OF p0 b0 hx hy ht hdx hdy hang refl refl, THEN conjunct1]
    obtain D where m: "onDpadMove exact_arithmetic dpad_tracking \<lparr>pointerId = 1, clientX = 100, clientY = 50\<rparr>
            = Inr (dpad_tracking\<lparr>currentDirection := D\<rparr>,
                   if currentDirection dpad_tracking = D then [] else [DpadPress D])"
      and "D = Right"
      using c by auto
    then show ?thesis by simp
  qed
  have p1: "isPressed_dpad dpad_tracking" and b1: "baseRect_dpad dpad_tracking = Some example_rect"
    by simp_all
  have d1: "onDpadMove exact_arithmetic dpad_tracking \<lparr>pointerId = 1, clientX = 100, clientY = 0\<rparr>
       = Inr (dpad_tracking\<lparr>currentDirection := UpRight\<rparr>, [DpadPress UpRight])"
  proof -
    have hx: "50 = minus_num exact_arithmetic (clientX \<lparr>pointerId = 1, clientX = 100, clientY = 0\<rparr>)
                (plus_num exact_arithmetic (left_rect example_rect) (divide_num exact_arithmetic (width_rect example_rect) 2))"
      by (simp add: exact_arithmetic_def)
    have hy: "- 50 = minus_num exact_arithmetic (clientY \<lparr>pointerId = 1, clientX = 100, clientY = 0\<rparr>)
                (plus_num exact_arithmetic (top_rect example_rect) (divide_num exact_arithmetic (height_rect example_rect) 2))"
      by (simp add: exact_arithmetic_def)
    have ht: "0 = divide_num exact_arithmetic (times_num exact_arithmetic (- rotation_dpad dpad_tracking) (pi_num exact_arithmetic)) 180"
      by (simp add: exact_arithmetic_def)
    have hdx: "50 = (if rotation_dpad dpad_tracking \<noteq> 0
                 then minus_num exact_arithmetic (times_num exact_arithmetic (50) (cos_num exact_arithmetic (0)))
                        (times_num exact_arithmetic (- 50) (sin_num exact_arithmetic (0)))
                 else 50)"
      by (simp add: exact_arithmetic_def)
    have hdy: "- 50 = (if rotation_dpad dpad_tracking \<noteq> 0
                 then plus_num exact_arithmetic (times_num exact_arithmetic (50) (sin_num exact_arithmetic (0)))
                        (times_num exact_arithmetic (- 50) (cos_num exact_arithmetic (0)))
                 else - 50)"
      by (simp add: exact_arithmetic_def)
    have c: "25 / 2 < sqrt_num exact_arithmetic (plus_num exact_arithmetic (times_num exact_arithmetic (50) (50)) (times_num exact_arithmetic (- 50) (- 50)))"
      using sqrt_sum_ge_fst [of "50" "- 50"] sqrt_sum_ge_snd [of "- 50" "50"]
      by (simp add: exact_arithmetic_def)
    have hang: "45 = divide_num exact_arithmetic (times_num exact_arithmetic (atan2_num exact_arithmetic (- (- 50)) (50)) 180) (pi_num exact_arithmetic)"
      by (simp add: exact_arithmetic_def Math_atan2_def arctan_one arctan_minus)
    from dpad_sector_table [OF p1 b1 hx hy ht hdx hdy hang refl refl, THEN conjunct1]
    obtain D where m: "onDpadMove exact_arithmetic dpad_tracking \<lparr>pointerId = 1, clientX = 100, clientY = 0\<rparr>
            = Inr (dpad_tracking\<lparr>currentDirection := D\<rparr>,
                   if currentDirection dpad_tracking = D then [] else [DpadPress D])"
      and "D = UpRight"
      using c by auto
    then show ?thesis by simp
  qed
  have p2: "isPressed_dpad dpad_tracking" and b2: "baseRect_dpad dpad_tracking = Some example_rect"
    by simp_all
  have d2: "onDpadMove exact_arithmetic dpad_tracking \<lparr>pointerId = 1, clientX = 50, clientY = 0\<rparr>
       = Inr (dpad_tracking\<lparr>currentDirection := Up\<rparr>, [DpadPress Up])"
  proof -
    have hx: "0 = minus_num exact_arithmetic (clientX \<lparr>pointerId = 1, clientX = 50, clientY = 0\<rparr>)
                (plus_num exact_arithmetic (left_rect example_rect) (divide_num exact_arithmetic (width_rect example_rect) 2))"
      by (simp add: exact_arithmetic_def)
    have hy: "- 50 = minus_num exact_arithmetic (clientY \<lparr>pointerId = 1, clientX = 50, clientY = 0\<rparr>)
                (plus_num exact_arithmetic (top_rect example_rect) (divide_num exact_arithmetic (height_rect example_rect) 2))"
      by (simp add: exact_arithmetic_def)
    have ht: "0 = divide_num exact_arithmetic (times_num exact_arithmetic (- rotation_dpad dpad_tracking) (pi_num exact_arithmetic)) 180"
      by (simp add: exact_arithmetic_def)
    have hdx: "0 = (if rotation_dpad dpad_tracking \<noteq> 0
                 then minus_num exact_arithmetic (times_num exact_arithmetic (0) (cos_num exact_arithmetic (0)))
                        (times_num exact_arithmetic (- 50) (sin_num exact_arithmetic (0)))
                 else 0)"
      by (simp add: exact_arithmetic_def)
    have hdy: "- 50 = (if rotation_dpad dpad_tracking \<noteq> 0
                 then plus_num exact_arithmetic (times_num exact_arithmetic (0) (sin_num exact_arithmetic (0)))
                        (times_num exact_arithmetic (- 50) (cos_num exact_arithmetic (0)))
                 else - 50)"
      by (simp add: exact_arithmetic_def)
    have c: "25 / 2 < sqrt_num exact_arithmetic (plus_num exact_arithmetic (times_num exact_arithmetic (0) (0)) (times_num exact_arithmetic (- 50) (- 50)))"
      using sqrt_sum_ge_fst [of "0" "- 50"] sqrt_sum_ge_snd [of "- 50" "0"]
      by (simp add: exact_arithmetic_def)
    have hang: "90 = divide_num exact_arithmetic (times_num exact_arithmetic (atan2_num exact_arithmetic (- (- 50)) (0)) 180) (pi_num exact_arithmetic)"
      by (simp add: exact_arithmetic_def Math_atan2_def arctan_one arctan_minus)
    from dpad_sector_table [OF p2 b2 hx hy ht hdx hdy hang refl refl, THEN conjunct1]
    obtain D where m: "onDpadMove exact_arithmetic dpad_tracking \<lparr>pointerId = 1, clientX = 50, clientY = 0\<rparr>
            = Inr (dpad_tracking\<lparr>currentDirection := D\<rparr>,
                   if currentDirection dpad_tracking = D then [] else [DpadPress D])"
      and "D = Up"
      using c by auto
    then show ?thesis by simp
  qed
  have p3: "isPressed_dpad dpad_tracking" and b3: "baseRect_dpad dpad_tracking = Some example_rect"
    by simp_all
  have d3: "onDpadMove exact_arithmetic dpad_tracking \<lparr>pointerId = 1, clientX = 0, clientY = 0\<rparr>
       = Inr (dpad_tracking\<lparr>currentDirection := UpLeft\<rparr>, [DpadPress UpLeft])"
  proof -
    have hx: "- 50 = minus_num exact_arithmetic (clientX \<lparr>pointerId = 1, clientX = 0, clientY = 0\<rparr>)
                (plus_num exact_arithmetic (left_rect example_rect) (divide_num exact_arithmetic (width_rect example_rect) 2))"
      by (simp add: exact_arithmetic_def)
    have hy: "- 50 = minus_num exact_arithmetic (clientY \<lparr>pointerId = 1, clientX = 0, clientY = 0\<rparr>)
                (plus_num exact_arithmetic (top_rect example_rect) (divide_num exact_arithmetic (height_rect example_rect) 2))"
      by (simp add: exact_arithmetic_def)
    have ht: "0 = divide_num exact_arithmetic (times_num exact_arithmetic (- rotation_dpad dpad_tracking) (pi_num exact_arithmetic)) 180"
      by (simp add: exact_arithmetic_def)
    have hdx: "- 50 = (if rotation_dpad dpad_tracking \<noteq> 0
                 then minus_num exact_arithmetic (times_num exact_arithmetic (- 50) (cos_num exact_arithmetic (0)))
                        (times_num exact_arithmetic (- 50) (sin_num exact_arithmetic (0)))
                 else - 50)"
      by (simp add: exact_arithmetic_def)
    have hdy: "- 50 = (if rotation_dpad dpad_tracking \<noteq> 0
                 then plus_num exact_arithmetic (times_num exact_arithmetic (- 50) (sin_num exact_arithmetic (0)))
                        (times_num exact_arithmetic (- 50) (cos_num exact_arithmetic (0)))
                 else - 50)"
      by (simp add: exact_arithmetic_def)
    have c: "25 / 2 < sqrt_num exact_arithmetic (plus_num exact_arithmetic (times_num exact_arithmetic (- 50) (- 50)) (times_num exact_arithmetic (- 50) (- 50)))"
      using sqrt_sum_ge_fst [of "- 50" "- 50"] sqrt_sum_ge_snd [of "- 50" "- 50"]
      by (simp add: exact_arithmetic_def)
    have hang: "135 = divide_num exact_arithmetic (times_num exact_arithmetic (atan2_num exact_arithmetic (- (- 50)) (- 50)) 180) (pi_num exact_arithmetic)"
      by (simp add: exact_arithmetic_def Math_atan2_def arctan_one arctan_minus)
    from dpad_sector_table [OF p3 b3 hx hy ht hdx hdy hang refl refl, THEN conjunct1]
    obtain D where m: "onDpadMove exact_arithmetic dpad_tracking \<lparr>pointerId = 1, clientX = 0, clientY = 0\<rparr>
            = Inr (dpad_tracking\<lparr>currentDirection := D\<rparr>,
                   if currentDirection dpad_tracking = D then [] else [DpadPress D])"
      and "D = UpLeft"
      using c by auto
    then show ?thesis by simp
  qed
  have p4: "isPressed_dpad dpad_tracking" and b4: "baseRect_dpad dpad_tracking = Some example_rect"
    by simp_all
  have d4: "onDpadMove exact_arithmetic dpad_tracking \<lparr>pointerId = 1, clientX = 0, clientY = 40\<rparr>
       = Inr (dpad_tracking\<lparr>currentDirection := Left\<rparr>, [DpadPress Left])"
  proof -
    have hx: "- 50 = minus_num exact_arithmetic (clientX \<lparr>pointerId = 1, clientX = 0, clientY = 40\<rparr>)
                (plus_num exact_arithmetic (left_rect example_rect) (divide_num exact_arithmetic (width_rect example_rect) 2))"
      by (simp add: exact_arithmetic_def)
    have hy: "- 10 = minus_num exact_arithmetic (clientY \<lparr>pointerId = 1, clientX = 0, clientY = 40\<rparr>)
                (plus_num exact_arithmetic (top_rect example_rect) (divide_num exact_arithmetic (height_rect example_rect) 2))"
      by (simp add: exact_arithmetic_def)
    have ht: "0 = divide_num exact_arithmetic (times_num exact_arithmetic (- rotation_dpad dpad_tracking) (pi_num exact_arithmetic)) 180"
      by (simp add: exact_arithmetic_def)
    have hdx: "- 50 = (if rotation_dpad dpad_tracking \<noteq> 0
                 then minus_num exact_arithmetic (times_num exact_arithmetic (- 50) (cos_num exact_arithmetic (0)))
                        (times_num exact_arithmetic (- 10) (sin_num exact_arithmetic (0)))
                 else - 50)"
      by (simp add: exact_arithmetic_def)
    have hdy: "- 10 = (if rotation_dpad dpad_tracking \<noteq> 0
                 then plus_num exact_arithmetic (times_num exact_arithmetic (- 50) (sin_num exact_arithmetic (0)))
                        (times_num exact_arithmetic (- 10) (cos_num exact_arithmetic (0)))
                 else - 10)"
      by (simp add: exact_arithmetic_def)
    have c: "25 / 2 < sqrt_num exact_arithmetic (plus_num exact_arithmetic (times_num exact_arithmetic (- 50) (- 50)) (times_num exact_arithmetic (- 10) (- 10)))"
      using sqrt_sum_ge_fst [of "- 50" "- 10"] sqrt_sum_ge_snd [of "- 10" "- 50"]
      by (simp add: exact_arithmetic_def)
    have lo: "0 < arctan (1 / 5 :: real) * 180 / pi" and hi: "arctan (1 / 5 :: real) * 180 / pi < 45 / 2"
      using arctan_fifth_bounds by (simp_all add: field_simps)
    have "divide_num exact_arithmetic (times_num exact_arithmetic (atan2_num exact_arithmetic (- (- 10)) (- 50)) 180) (pi_num exact_arithmetic)
            = 180 - arctan (1 / 5) * 180 / pi"
      by (simp add: exact_arithmetic_def Math_atan2_def arctan_minus field_simps)
    then have a: "divide_num exact_arithmetic (times_num exact_arithmetic (atan2_num exact_arithmetic (- (- 10)) (- 50)) 180) (pi_num exact_arithmetic)
            \<in> {157.5 <.. 180}"
      using lo hi by simp
    from dpad_sector_table [OF p4 b4 hx hy ht hdx hdy refl refl refl, THEN conjunct1]
    obtain D where m: "onDpadMove exact_arithmetic dpad_tracking \<lparr>pointerId = 1, clientX = 0, clientY = 40\<rparr>
            = Inr (dpad_tracking\<lparr>currentDirection := D\<rparr>,
                   if currentDirection dpad_tracking = D then [] else [DpadPress D])"
      and "D = Left"
      using c a by auto
    then show ?thesis by simp
  qed
  have p5: "isPressed_dpad dpad_tracking" and b5: "baseRect_dpad dpad_tracking = Some example_rect"
    by simp_all
  have d5: "onDpadMove exact_arithmetic dpad_tracking \<lparr>pointerId = 1, clientX = 0, clientY = 100\<rparr>
       = Inr (dpad_tracking\<lparr>currentDirection := DownLeft\<rparr>, [DpadPress DownLeft])"
  proof -
    have hx: "- 50 = minus_num exact_arithmetic (clientX \<lparr>pointerId = 1, clientX = 0, clientY = 100\<rparr>)
                (plus_num exact_arithmetic (left_rect example_rect) (divide_num exact_arithmetic (width_rect example_rect) 2))"
      by (simp add: exact_arithmetic_def)
    have hy: "50 = minus_num exact_arithmetic (clientY \<lparr>pointerId = 1, clientX = 0, clientY = 100\<rparr>)
                (plus_num exact_arithmetic (top_rect example_rect) (divide_num exact_arithmetic (height_rect example_rect) 2))"
      by (simp add: exact_arithmetic_def)
    have ht: "0 = divide_num exact_arithmetic (times_num exact_arithmetic (- rotation_dpad dpad_tracking) (pi_num exact_arithmetic)) 180"
      by (simp add: exact_arithmetic_def)
    have hdx: "- 50 = (if rotation_dpad dpad_tracking \<noteq> 0
                 then minus_num exact_arithmetic (times_num exact_arithmetic (- 50) (cos_num exact_arithmetic (0)))
                        (times_num exact_arithmetic (50) (sin_num exact_arithmetic (0)))
                 else - 50)"
      by (simp add: exact_arithmetic_def)
    have hdy: "50 = (if rotation_dpad dpad_tracking \<noteq> 0
                 then plus_num exact_arithmetic (times_num exact_arithmetic (- 50) (sin_num exact_arithmetic (0)))
                        (times_num exact_arithmetic (50) (cos_num exact_arithmetic (0)))
                 else 50)"
      by (simp add: exact_arithmetic_def)
    have c: "25 / 2 < sqrt_num exact_arithmetic (plus_num exact_arithmetic (times_num exact_arithmetic (- 50) (- 50)) (times_num exact_arithmetic (50) (50)))"
      using sqrt_sum_ge_fst [of "- 50" "50"] sqrt_sum_ge_snd [of "50" "- 50"]
      by (simp add: exact_arithmetic_def)
    have hang: "- 135 = divide_num exact_arithmetic (times_num exact_arithmetic (atan2_num exact_arithmetic (- (50)) (- 50)) 180) (pi_num exact_arithmetic)"
      by (simp add: exact_arithmetic_def Math_atan2_def arctan_one arctan_minus)
    from dpad_sector_table [OF p5 b5 hx hy ht hdx hdy hang refl refl, THEN conjunct1]
    obtain D where m: "onDpadMove exact_arithmetic dpad_tracking \<lparr>pointerId = 1, clientX = 0, clientY = 100\<rparr>
            = Inr (dpad_tracking\<lparr>currentDirection := D\<rparr>,
                   if currentDirection dpad_tracking = D then [] else [DpadPress D])"
      and "D = DownLeft"
      using c by auto
    then show ?thesis by simp
  qed
  have p6: "isPressed_dpad dpad_tracking" and b6: "baseRect_dpad dpad_tracking = Some example_rect"
    by simp_all
  have d6: "onDpadMove exact_arithmetic dpad_tracking \<lparr>pointerId = 1, clientX = 50, clientY = 100\<rparr>
       = Inr (dpad_tracking\<lparr>currentDirection := Down\<rparr>, [DpadPress Down])"
  proof -
    have hx: "0 = minus_num exact_arithmetic (clientX \<lparr>pointerId = 1, clientX = 50, clientY = 100\<rparr>)
                (plus_num exact_arithmetic (left_rect example_rect) (divide_num exact_arithmetic (width_rect example_rect) 2))"
      by (simp add: exact_arithmetic_def)
    have hy: "50 = minus_num exact_arithmetic (clientY \<lparr>pointerId = 1, clientX = 50, clientY = 100\<rparr>)
                (plus_num exact_arithmetic (top_rect example_rect) (divide_num exact_arithmetic (height_rect example_rect) 2))"
      by (simp add: exact_arithmetic_def)
    have ht: "0 = divide_num exact_arithmetic (times_num exact_arithmetic (- rotation_dpad dpad_tracking) (pi_num exact_arithmetic)) 180"
      by (simp add: exact_arithmetic_def)
    have hdx: "0 = (if rotation_dpad dpad_tracking \<noteq> 0
                 then minus_num exact_arithmetic (times_num exact_arithmetic (0) (cos_num exact_arithmetic (0)))
                        (times_num exact_arithmetic (50) (sin_num exact_arithmetic (0)))
                 else 0)"
      by (simp add: exact_arithmetic_def)
    have hdy: "50 = (if rotation_dpad dpad_tracking \<noteq> 0
                 then plus_num exact_arithmetic (times_num exact_arithmetic (0) (sin_num exact_arithmetic (0)))
                        (times_num exact_arithmetic (50) (cos_num exact_arithmetic (0)))
                 else 50)"
      by (simp add: exact_arithmetic_def)
    have c: "25 / 2 < sqrt_num exact_arithmetic (plus_num exact_arithmetic (times_num exact_arithmetic (0) (0)) (times_num exact_arithmetic (50) (50)))"
      using sqrt_sum_ge_fst [of "0" "50"] sqrt_sum_ge_snd [of "50" "0"]
      by (simp add: exact_arithmetic_def)
    have hang: "- 90 = divide_num exact_arithmetic (times_num exact_arithmetic (atan2_num exact_arithmetic (- (50)) (0)) 180) (pi_num exact_arithmetic)"
      by (simp add: exact_arithmetic_def Math_atan2_def arctan_one arctan_minus)
    from dpad_sector_table [OF p6 b6 hx hy ht hdx hdy hang refl refl, THEN conjunct1]
    obtain D where m: "onDpadMove exact_arithmetic dpad_tracking \<lparr>pointerId = 1, clientX = 50, clientY = 100\<rparr>
            = Inr (dpad_tracking\<lparr>currentDirection := D\<rparr>,
                   if currentDirection dpad_tracking = D then [] else [DpadPress D])"
      and "D = Down"
      using c by auto
    then show ?thesis by simp
  qed
  have p7: "isPressed_dpad dpad_tracking" and b7: "baseRect_dpad dpad_tracking = Some example_rect"
    by simp_all
  have d7: "onDpadMove exact_arithmetic dpad_tracking \<lparr>pointerId = 1, clientX = 100, clientY = 100\<rparr>
       = Inr (dpad_tracking\<lparr>currentDirection := DownRight\<rparr>, [DpadPress DownRight])"
  proof -
    have hx: "50 = minus_num exact_arithmetic (clientX \<lparr>pointerId = 1, clientX = 100, clientY = 100\<rparr>)
                (plus_num exact_arithmetic (left_rect example_rect) (divide_num exact_arithmetic (width_rect example_rect) 2))"
      by (simp add: exact_arithmetic_def)
    have hy: "50 = minus_num exact_arithmetic (clientY \<lparr>pointerId = 1, clientX = 100, clientY = 100\<rparr>)
                (plus_num exact_arithmetic (top_rect example_rect) (divide_num exact_arithmetic (height_rect example_rect) 2))"
      by (simp add: exact_arithmetic_def)
    have ht: "0 = divide_num exact_arithmetic (times_num exact_arithmetic (- rotation_dpad dpad_tracking) (pi_num exact_arithmetic)) 180"
      by (simp add: exact_arithmetic_def)
    have hdx: "50 = (if rotation_dpad dpad_tracking \<noteq> 0
                 then minus_num exact_arithmetic (times_num exact_arithmetic (50) (cos_num exact_arithmetic (0)))
                        (times_num exact_arithmetic (50) (sin_num exact_arithmetic (0)))
                 else 50)"
      by (simp add: exact_arithmetic_def)
    have hdy: "50 = (if rotation_dpad dpad_tracking \<noteq> 0
                 then plus_num exact_arithmetic (times_num exact_arithmetic (50) (sin_num exact_arithmetic (0)))
                        (times_num exact_arithmetic (50) (cos_num exact_arithmetic (0)))
                 else 50)"
      by (simp add: exact_arithmetic_def)
    have c: "25 / 2 < sqrt_num exact_arithmetic (plus_num exact_arithmetic (times_num exact_arithmetic (50) (50)) (times_num exact_arithmetic (50) (50)))"
      using sqrt_sum_ge_fst [of "50" "50"] sqrt_sum_ge_snd [of "50" "50"]
      by (simp add: exact_arithmetic_def)
    have hang: "- 45 = divide_num exact_arithmetic (times_num exact_arithmetic (atan2_num exact_arithmetic (- (50)) (50)) 180) (pi_num exact_arithmetic)"
      by (simp add: exact_arithmetic_def Math_atan2_def arctan_one arctan_minus)
    from dpad_sector_table [OF p7 b7 hx hy ht hdx hdy hang refl refl, THEN conjunct1]
    obtain D where m: "onDpadMove exact_arithmetic dpad_tracking \<lparr>pointerId = 1, clientX = 100, clientY = 100\<rparr>
            = Inr (dpad_tracking\<lparr>currentDirection := D\<rparr>,
                   if currentDirection dpad_tracking = D then [] else [DpadPress D])"
      and "D = DownRight"
      using c by auto
    then show ?thesis by simp
  qed
  have p8: "isPressed_dpad (dpad_tracking\<lparr>rotation_dpad := 90\<rparr>)" and b8: "baseRect_dpad (dpad_tracking\<lparr>rotation_dpad := 90\<rparr>) = Some example_rect"
    by simp_all
  have d8: "onDpadMove exact_arithmetic (dpad_tracking\<lparr>rotation_dpad := 90\<rparr>) \<lparr>pointerId = 1, clientX = 100, clientY = 50\<rparr>
       = Inr ((dpad_tracking\<lparr>rotation_dpad := 90\<rparr>)\<lparr>currentDirection := Up\<rparr>, [DpadPress Up])"
  proof -
    have hx: "50 = minus_num exact_arithmetic (clientX \<lparr>pointerId = 1, clientX = 100, clientY = 50\<rparr>)
                (plus_num exact_arithmetic (left_rect example_rect) (divide_num exact_arithmetic (width_rect example_rect) 2))"
      by (simp add: exact_arithmetic_def)
    have hy: "0 = minus_num exact_arithmetic (clientY \<lparr>pointerId = 1, clientX = 100, clientY = 50\<rparr>)
                (plus_num exact_arithmetic (top_rect example_rect) (divide_num exact_arithmetic (height_rect example_rect) 2))"
      by (simp add: exact_arithmetic_def)
    have ht: "- (pi / 2) = divide_num exact_arithmetic (times_num exact_arithmetic (- rotation_dpad (dpad_tracking\<lparr>rotation_dpad := 90\<rparr>)) (pi_num exact_arithmetic)) 180"
      by (simp add: exact_arithmetic_def)
    have hdx: "0 = (if rotation_dpad (dpad_tracking\<lparr>rotation_dpad := 90\<rparr>) \<noteq> 0
                 then minus_num exact_arithmetic (times_num exact_arithmetic (50) (cos_num exact_arithmetic (- (pi / 2))))
                        (times_num exact_arithmetic (0) (sin_num exact_arithmetic (- (pi / 2))))
                 else 50)"
      by (simp add: exact_arithmetic_def)
    have hdy: "- 50 = (if rotation_dpad (dpad_tracking\<lparr>rotation_dpad := 90\<rparr>) \<noteq> 0
                 then plus_num exact_arithmetic (times_num exact_arithmetic (50) (sin_num exact_arithmetic (- (pi / 2))))
                        (times_num exact_arithmetic (0) (cos_num exact_arithmetic (- (pi / 2))))
                 else 0)"
      by (simp add: exact_arithmetic_def)
    have c: "25 / 2 < sqrt_num exact_arithmetic (plus_num exact_arithmetic (times_num exact_arithmetic (0) (0)) (times_num exact_arithmetic (- 50) (- 50)))"
      using sqrt_sum_ge_fst [of "0" "- 50"] sqrt_sum_ge_snd [of "- 50" "0"]
      by (simp add: exact_arithmetic_def)
    have hang: "90 = divide_num exact_arithmetic (times_num exact_arithmetic (atan2_num exact_arithmetic (- (- 50)) (0)) 180) (pi_num exact_arithmetic)"
      by (simp add: exact_arithmetic_def Math_atan2_def arctan_one arctan_minus)
    from dpad_sector_table [OF p8 b8 hx hy ht hdx hdy hang refl refl, THEN conjunct1]
    obtain D where m: "onDpadMove exact_arithmetic (dpad_tracking\<lparr>rotation_dpad := 90\<rparr>) \<lparr>pointerId = 1, clientX = 100, clientY = 50\<rparr>
            = Inr ((dpad_tracking\<lparr>rotation_dpad := 90\<rparr>)\<lparr>currentDirection := D\<rparr>,
                   if currentDirection (dpad_tracking\<lparr>rotation_dpad := 90\<rparr>) = D then [] else [DpadPress D])"
      and "D = Up"
      using c by auto
    then show ?thesis by simp
  qed
  have p9: "isPressed_dpad (dpad_tracking\<lparr>rotation_dpad := - 90\<rparr>)" and b9: "baseRect_dpad (dpad_tracking\<lparr>rotation_dpad := - 90\<rparr>) = Some example_rect"
    by simp_all
  have d9: "onDpadMove exact_arithmetic (dpad_tracking\<lparr>rotation_dpad := - 90\<rparr>) \<lparr>pointerId = 1, clientX = 100, clientY = 50\<rparr>
       = Inr ((dpad_tracking\<lparr>rotation_dpad := - 90\<rparr>)\<lparr>currentDirection := Down\<rparr>, [DpadPress Down])"
  proof -
    have hx: "50 = minus_num exact_arithmetic (clientX \<lparr>pointerId = 1, clientX = 100, clientY = 50\<rparr>)
                (plus_num exact_arithmetic (left_rect example_rect) (divide_num exact_arithmetic (width_rect example_rect) 2))"
      by (simp add: exact_arithmetic_def)
    have hy: "0 = minus_num exact_arithmetic (clientY \<lparr>pointerId = 1, clientX = 100, clientY = 50\<rparr>)
                (plus_num exact_arithmetic (top_rect example_rect) (divide_num exact_arithmetic (height_rect example_rect) 2))"
      by (simp add: exact_arithmetic_def)
    have ht: "pi / 2 = divide_num exact_arithmetic (times_num exact_arithmetic (- rotation_dpad (dpad_tracking\<lparr>rotation_dpad := - 90\<rparr>)) (pi_num exact_arithmetic)) 180"
      by (simp add: exact_arithmetic_def)
    have hdx: "0 = (if rotation_dpad (dpad_tracking\<lparr>rotation_dpad := - 90\<rparr>) \<noteq> 0
                 then minus_num exact_arithmetic (times_num exact_arithmetic (50) (cos_num exact_arithmetic (pi / 2)))
                        (times_num exact_arithmetic (0) (sin_num exact_arithmetic (pi / 2)))
                 else 50)"
      by (simp add: exact_arithmetic_def)
    have hdy: "50 = (if rotation_dpad (dpad_tracking\<lparr>rotation_dpad := - 90\<rparr>) \<noteq> 0
                 then plus_num exact_arithmetic (times_num exact_arithmetic (50) (sin_num exact_arithmetic (pi / 2)))
                        (times_num exact_arithmetic (0) (cos_num exact_arithmetic (pi / 2)))
                 else 0)"
      by (simp add: exact_arithmetic_def)
    have c: "25 / 2 < sqrt_num exact_arithmetic (plus_num exact_arithmetic (times_num exact_arithmetic (0) (0)) (times_num exact_arithmetic (50) (50)))"
      using sqrt_sum_ge_fst [of "0" "50"] sqrt_sum_ge_snd [of "50" "0"]
      by (simp add: exact_arithmetic_def)
    have hang: "- 90 = divide_num exact_arithmetic (times_num exact_arithmetic (atan2_num exact_arithmetic (- (50)) (0)) 180) (pi_num exact_arithmetic)"
      by (simp add: exact_arithmetic_def Math_atan2_def arctan_one arctan_minus)
    from dpad_sector_table [OF p9 b9 hx hy ht hdx hdy hang refl refl, THEN conjunct1]
    obtain D where m: "onDpadMove exact_arithmetic (dpad_tracking\<lparr>rotation_dpad := - 90\<rparr>) \<lparr>pointerId = 1, clientX = 100, clientY = 50\<rparr>
            = Inr ((dpad_tracking\<lparr>rotation_dpad := - 90\<rparr>)\<lparr>currentDirection := D\<rparr>,
                   if currentDirection (dpad_tracking\<lparr>rotation_dpad := - 90\<rparr>) = D then [] else [DpadPress D])"
      and "D = Down"
      using c by auto
    then show ?thesis by simp
  qed
  have p10: "isPressed_dpad dpad_tracking" and b10: "baseRect_dpad dpad_tracking = Some example_rect"
    by simp_all
  have d10: "onDpadMove exact_arithmetic dpad_tracking \<lparr>pointerId = 1, clientX = 62.5, clientY = 50\<rparr>
       = Inr (dpad_tracking, [])"
  proof -
    have hx: "12.5 = minus_num exact_arithmetic (clientX \<lparr>pointerId = 1, clientX = 62.5, clientY = 50\<rparr>)
                (plus_num exact_arithmetic (left_rect example_rect) (divide_num exact_arithmetic (width_rect example_rect) 2))"
      by (simp add: exact_arithmetic_def)
    have hy: "0 = minus_num exact_arithmetic (clientY \<lparr>pointerId = 1, clientX = 62.5, clientY = 50\<rparr>)
                (plus_num exact_arithmetic (top_rect example_rect) (divide_num exact_arithmetic (height_rect example_rect) 2))"
      by (simp add: exact_arithmetic_def)
    have ht: "0 = divide_num exact_arithmetic (times_num exact_arithmetic (- rotation_dpad dpad_tracking) (pi_num exact_arithmetic)) 180"
      by (simp add: exact_arithmetic_def)
    have hdx: "12.5 = (if rotation_dpad dpad_tracking \<noteq> 0
                 then minus_num exact_arithmetic (times_num exact_arithmetic (12.5) (cos_num exact_arithmetic (0)))
                        (times_num exact_arithmetic (0) (sin_num exact_arithmetic (0)))
                 else 12.5)"
      by (simp add: exact_arithmetic_def)
    have hdy: "0 = (if rotation_dpad dpad_tracking \<noteq> 0
                 then plus_num exact_arithmetic (times_num exact_arithmetic (12.5) (sin_num exact_arithmetic (0)))
                        (times_num exact_arithmetic (0) (cos_num exact_arithmetic (0)))
                 else 0)"
      by (simp add: exact_arithmetic_def)
    have c: "sqrt_num exact_arithmetic (plus_num exact_arithmetic (times_num exact_arithmetic 12.5 12.5) (times_num exact_arithmetic 0 0)) = 25 / 2"
      using real_sqrt_abs [of "25 / 2"] by (simp add: exact_arithmetic_def power2_eq_square)
    from dpad_sector_table [OF p10 b10 hx hy ht hdx hdy refl refl refl, THEN conjunct1]
    obtain D where m: "onDpadMove exact_arithmetic dpad_tracking \<lparr>pointerId = 1, clientX = 62.5, clientY = 50\<rparr>
            = Inr (dpad_tracking\<lparr>currentDirection := D\<rparr>,
                   if currentDirection dpad_tracking = D then [] else [DpadPress D])"
      and "D = Center"
      using c by auto
    then show ?thesis by simp
  qed
  show ?thesis
    using d0 d1 d2 d3 d4 d5 d6 d7 d8 d9 d10 by (intro conjI)
qed



text \<open>
  C6. The d-pad's press callback fires on a direction transition only. Take a
  pressed d-pad and a non-empty run of move events that all map to one direction
  \<open>d\<close>: when \<open>currentDirection\<close> was already \<open>d\<close> no callback is invoked at
  all, and otherwise the callback is invoked exactly once, with \<open>d\<close>, however
  long the run is. The run ends with \<open>currentDirection = d\<close>.
\<close>

theorem dpad_press_once_per_direction:
  assumes "isPressed_dpad s" and "baseRect_dpad s = Some r" and "es \<noteq> []"
    and "\<forall>e \<in> set es. dpadDirection M s r e = d"
  shows "dpadMoves M s es =
           Inr (s\<lparr>currentDirection := d\<rparr>,
                if currentDirection s = d then [] else [DpadPress d])"
proof (cases es)
  case Nil
  then show ?thesis using assms by simp
next
  case (Cons e es')
  let ?s' = "s\<lparr>currentDirection := d\<rparr>"
  have e: "dpadDirection M s r e = d" and es': "\<forall>x \<in> set es'. dpadDirection M s r x = d"
    using assms(4) Cons by simp_all
  have first: "onDpadMove M s e = Inr (?s', if currentDirection s = d then [] else [DpadPress d])"
    using assms(1,2) e by (simp add: onDpadMove_pressed)
  have "\<forall>x \<in> set es'. dpadDirection M ?s' r x = currentDirection ?s'"
    using es' by (simp add: dpadDirection_currentDirection)
  moreover have "isPressed_dpad ?s'" "baseRect_dpad ?s' = Some r"
    using assms(1,2) by simp_all
  ultimately have rest: "dpadMoves M ?s' es' = Inr (?s', [])"
    by (rule dpadMoves_same_direction [rotated 2])
  show ?thesis
    unfolding Cons using first rest by simp
qed

theorem dpad_press_once_per_direction_witness:
  "dpadMoves exact_arithmetic dpad_tracking
     [\<lparr>pointerId = 1, clientX = 100, clientY = 50\<rparr>,
      \<lparr>pointerId = 1, clientX = 90, clientY = 50\<rparr>,
      \<lparr>pointerId = 1, clientX = 80, clientY = 50\<rparr>]
   = Inr (dpad_tracking\<lparr>currentDirection := Right\<rparr>, [DpadPress Right])"
proof -
  have "dpadDirection exact_arithmetic dpad_tracking example_rect \<lparr>pointerId = 1, clientX = 100, clientY = 50\<rparr> = Right"
    using dpad_example_right [of 50 Center 1] by simp
  moreover have "dpadDirection exact_arithmetic dpad_tracking example_rect \<lparr>pointerId = 1, clientX = 90, clientY = 50\<rparr> = Right"
    using dpad_example_right [of 40 Center 1] by simp
  moreover have "dpadDirection exact_arithmetic dpad_tracking example_rect \<lparr>pointerId = 1, clientX = 80, clientY = 50\<rparr> = Right"
    using dpad_example_right [of 30 Center 1] by simp
  ultimately have all: "\<forall>e \<in> set [\<lparr>pointerId = 1, clientX = 100, clientY = 50\<rparr>,
      \<lparr>pointerId = 1, clientX = 90, clientY = 50\<rparr>,
      \<lparr>pointerId = 1, clientX = 80, clientY = 50\<rparr>]. dpadDirection exact_arithmetic dpad_tracking example_rect e = Right"
    by simp
  have p: "isPressed_dpad dpad_tracking" and b: "baseRect_dpad dpad_tracking = Some example_rect"
    by simp_all
  have n: "[\<lparr>pointerId = 1, clientX = 100, clientY = 50\<rparr>,
      \<lparr>pointerId = 1, clientX = 90, clientY = 50\<rparr>,
      \<lparr>pointerId = (1::int), clientX = 80::real, clientY = 50::real\<rparr>] \<noteq> []"
    by simp
  show ?thesis
    using dpad_press_once_per_direction [OF p b n all] by simp
qed

text \<open>
  C7, as stated, fails on the slider: a vertical slider pressed at mid-height holds
  the value 50, and a move event at the same height invokes no callback.
\<close>

theorem slider_same_value_counterexample:
  "onSliderDown example_rect (RetrackableSlider_new None)
       \<lparr>pointerId = 1, clientX = 5, clientY = 50\<rparr> = (slider_tracking, [SliderSlide 50])
   \<and> isPressed_slider slider_tracking
   \<and> onSliderMove example_rect slider_tracking \<lparr>pointerId = 1, clientX = 5, clientY = 50\<rparr>
       = (slider_tracking, [])"
  using slider_example_down
  by (simp add: onSliderMove_def setSliderValue_def slider_example_value Let_def)

text \<open>
  C7 (amended). Every move event on a pressed joystick invokes the input callback
  once and leaves the controller as it was, so a move that maps to the value
  emitted before invokes it again. A move event on a pressed slider stores the
  value that the event maps to as \<open>valuePercent\<close> and invokes the slide callback,
  with that value, exactly when it differs from the \<open>valuePercent\<close> stored
  before (lines 921-930).
\<close>

theorem move_callback_gating:
  "(isPressed_joy s \<longrightarrow> (\<exists>x y. onJoysickMove s e = (s, [JoyInput x y])))
   \<and> (isPressed_slider t \<longrightarrow>
        (\<exists>v. onSliderMove m t e' =
           (t\<lparr>baseRect_slider := Some m, valuePercent := v\<rparr>,
            if valuePercent t \<noteq> v then [SliderSlide v] else [])))"
  by (cases t) (simp add: onJoysickMove_def onSliderMove_def setSliderValue_def Let_def)

theorem move_callback_gating_witness:
  "onJoysickMove joystick_tracking \<lparr>pointerId = 1, clientX = 112.5, clientY = 62.5\<rparr>
     = (joystick_tracking, [JoyInput 1 0])
   \<and> onJoysickMove (fst (onJoysickMove joystick_tracking \<lparr>pointerId = 1, clientX = 112.5, clientY = 62.5\<rparr>))
        \<lparr>pointerId = 1, clientX = 112.5, clientY = 62.5\<rparr> = (joystick_tracking, [JoyInput 1 0])
   \<and> onSliderMove example_rect slider_tracking \<lparr>pointerId = 1, clientX = 5, clientY = 50\<rparr>
     = (slider_tracking, [])
   \<and> onSliderMove example_rect slider_tracking \<lparr>pointerId = 1, clientX = 5, clientY = 0\<rparr>
     = (slider_tracking\<lparr>valuePercent := 100\<rparr>, [SliderSlide 100])"
proof -
  note g = move_callback_gating
  have j: "isPressed_joy joystick_tracking" by simp
  have s: "isPressed_slider slider_tracking" by simp
  from g [where s = joystick_tracking
            and e = "\<lparr>pointerId = 1, clientX = 112.5, clientY = 62.5\<rparr>", THEN conjunct1] j
  have "\<exists>x y. onJoysickMove joystick_tracking \<lparr>pointerId = 1, clientX = 112.5, clientY = 62.5\<rparr>
          = (joystick_tracking, [JoyInput x y])"
    by (rule mp)
  then have 1: "onJoysickMove joystick_tracking \<lparr>pointerId = 1, clientX = 112.5, clientY = 62.5\<rparr>
     = (joystick_tracking, [JoyInput 1 0])"
    using joystick_example_right [of 1] by simp
  from g [where t = slider_tracking and m = example_rect
            and e' = "\<lparr>pointerId = 1, clientX = 5, clientY = 50\<rparr>", THEN conjunct2] s
  obtain v where v: "onSliderMove example_rect slider_tracking \<lparr>pointerId = 1, clientX = 5, clientY = 50\<rparr>
     = (slider_tracking\<lparr>baseRect_slider := Some example_rect, valuePercent := v\<rparr>,
        if valuePercent slider_tracking \<noteq> v then [SliderSlide v] else [])"
    by blast
  have "fst (onSliderMove example_rect slider_tracking \<lparr>pointerId = 1, clientX = 5, clientY = 50\<rparr>)
          = slider_tracking"
    by (simp add: onSliderMove_def setSliderValue_def slider_example_value Let_def)
  then have "v = 50" using v by simp
  then have 2: "onSliderMove example_rect slider_tracking \<lparr>pointerId = 1, clientX = 5, clientY = 50\<rparr>
     = (slider_tracking, [])"
    using v by simp
  from g [where t = slider_tracking and m = example_rect
            and e' = "\<lparr>pointerId = 1, clientX = 5, clientY = 0\<rparr>", THEN conjunct2] s
  obtain w where w: "onSliderMove example_rect slider_tracking \<lparr>pointerId = 1, clientX = 5, clientY = 0\<rparr>
     = (slider_tracking\<lparr>baseRect_slider := Some example_rect, valuePercent := w\<rparr>,
        if valuePercent slider_tracking \<noteq> w then [SliderSlide w] else [])"
    by blast
  have "sliderValue Vertical example_rect \<lparr>pointerId = 1, clientX = 5, clientY = 0\<rparr> = 100"
    by (simp add: sliderValue_def Math_round_numeral)
  then have "valuePercent (fst (onSliderMove example_rect slider_tracking
               \<lparr>pointerId = 1, clientX = 5, clientY = 0\<rparr>)) = 100"
    by (simp add: onSliderMove_def setSliderValue_def Let_def)
  then have "w = 100" using w by simp
  then have 3: "onSliderMove example_rect slider_tracking \<lparr>pointerId = 1, clientX = 5, clientY = 0\<rparr>
     = (slider_tracking\<lparr>valuePercent := 100\<rparr>, [SliderSlide 100])"
    using w by simp
  show ?thesis using 1 2 3 by simp
qed

text \<open>
  C8. A joystick with rotation 0 whose travel radius is measured as 50: a
  pointer-down 50 pixels to the right of the centre of the base invokes the input
  callback with \<open>(1, 0)\<close>; a move to 50 pixels above the centre then invokes it
  with \<open>(0, 1)\<close> (up on the screen is the positive \<open>y\<close>); a release then invokes
  the release callback with \<open>(0, 0)\<close> and clears \<open>isPressed\<close>.
\<close>

theorem joystick_scenario:
  assumes "rotation_joy s = 0"
    and "(radius_joy s - thumbOffsetWidth lay) / 1.5 = 50"
    and "r = boundingClientRect lay"
    and "s1 = s\<lparr>isPressed_joy := True, baseRect_joy := r, thumbMaxDistance := 50\<rparr>"
    and "cx = left_rect r + width_rect r / 2" and "cy = top_rect r + height_rect r / 2"
  shows "onJoysickDown lay s \<lparr>pointerId = i, clientX = cx + 50, clientY = cy\<rparr>
           = (s1, [JoyInput 1 0])
         \<and> onJoysickMove s1 \<lparr>pointerId = i, clientX = cx, clientY = cy - 50\<rparr>
           = (s1, [JoyInput 0 1])
         \<and> onJoysickUp s1 e = (s1\<lparr>isPressed_joy := False\<rparr>, [JoyRelease 0 0])"
proof -
  have u: "updateContainerRectangle_joy lay (s\<lparr>isPressed_joy := True\<rparr>) = s1"
    using assms(2,3,4) by (simp add: updateContainerRectangle_joy_def)
  have p: "isPressed_joy s1" "rotation_joy s1 = 0" "thumbMaxDistance s1 = 50" "baseRect_joy s1 = r"
    using assms(1,4) by simp_all
  have "onJoysickMove s1 \<lparr>pointerId = i, clientX = cx + 50, clientY = cy\<rparr> = (s1, [JoyInput 1 0])"
    using p assms(5,6)
    by (simp add: onJoysickMove_def joystickOffset_def clampOffset_def normalizeOffset_def
        Math_hypot_def Math_round_numeral Let_def)
  then have down: "onJoysickDown lay s \<lparr>pointerId = i, clientX = cx + 50, clientY = cy\<rparr>
           = (s1, [JoyInput 1 0])"
    by (simp add: onJoysickDown_def u)
  have move: "onJoysickMove s1 \<lparr>pointerId = i, clientX = cx, clientY = cy - 50\<rparr>
           = (s1, [JoyInput 0 1])"
    using p assms(5,6)
    by (simp add: onJoysickMove_def joystickOffset_def clampOffset_def normalizeOffset_def
        Math_hypot_def Math_round_numeral Let_def)
  show ?thesis using down move by (simp add: onJoysickUp_def)
qed

theorem joystick_scenario_witness:
  "onJoysickDown joystick_example_layout
       (JoystickController_new (Some 125) None joystick_example_layout)
       \<lparr>pointerId = 1, clientX = 112.5, clientY = 62.5\<rparr> = (joystick_tracking, [JoyInput 1 0])
   \<and> onJoysickMove joystick_tracking \<lparr>pointerId = 1, clientX = 62.5, clientY = 12.5\<rparr>
       = (joystick_tracking, [JoyInput 0 1])
   \<and> onJoysickUp joystick_tracking \<lparr>pointerId = 1, clientX = 62.5, clientY = 12.5\<rparr>
       = (joystick_tracking\<lparr>isPressed_joy := False\<rparr>, [JoyRelease 0 0])"
proof -
  let ?s = "JoystickController_new (Some 125) None joystick_example_layout"
  have s: "?s = joystick_tracking\<lparr>isPressed_joy := False\<rparr>"
    by (simp add: JoystickController_new_def updateContainerRectangle_joy_def)
  have 1: "rotation_joy ?s = 0" and 2: "(radius_joy ?s - thumbOffsetWidth joystick_example_layout) / 1.5 = 50"
    by (simp_all add: s)
  have 4: "joystick_tracking = ?s\<lparr>isPressed_joy := True,
      baseRect_joy := boundingClientRect joystick_example_layout, thumbMaxDistance := 50\<rparr>"
    by (simp add: s)
  show ?thesis
    using joystick_scenario [OF 1 2 refl 4 refl refl, of 1 "\<lparr>pointerId = 1, clientX = 62.5, clientY = 12.5\<rparr>"]
    by simp
qed

text \<open>
  C10. The joystick's release handler has no guard: every pointer-up or
  pointer-cancel event, whatever the controller's state, leaves
  \<open>isPressed\<close> false and invokes the release callback with \<open>(0, 0)\<close>, exactly
  once; a second release in a row does the same again.
\<close>

theorem joystick_release_unguarded:
  "onJoysickUp s e = (s\<lparr>isPressed_joy := False\<rparr>, [JoyRelease 0 0])
   \<and> \<not> isPressed_joy (fst (onJoysickUp s e))
   \<and> snd (onJoysickUp (fst (onJoysickUp s e)) e') = [JoyRelease 0 0]
   \<and> \<not> isPressed_joy (fst (onJoysickUp (fst (onJoysickUp s e)) e'))"
  by (simp add: onJoysickUp_def)

end
